theory Spec2Isabelle
  imports Complex_Main "HOL-Library.Sublist"
begin

section \<open>Speaker classification: data model\<close>

text \<open>
  A shallow embedding of \<^verbatim>\<open>montreal_forced_aligner/speaker_classifier.py\<close>.
  Every method of \<^verbatim>\<open>SpeakerClassifier\<close> becomes a function that takes the
  object (and, where the method touches the disk, the file system) and returns the
  outcome together with the state the call leaves behind: a Python exception does not
  undo the assignments made before it.
\<close>

subsection \<open>Exceptions and log records\<close>

text \<open>
  The exceptions the module raises itself or lets Python raise: \<^verbatim>\<open>NotImplementedError\<close>
  (with its message), the \<^verbatim>\<open>ValueError\<close> of \<^verbatim>\<open>float(x)\<close> (Python's message quotes
  the text that could not be converted, kept here as the payload), the \<^verbatim>\<open>IndexError\<close> of
  \<^verbatim>\<open>intervals[0]\<close>, the \<^verbatim>\<open>KeyError\<close> of \<^verbatim>\<open>data[speaker]\<close> (with the key),
  \<^verbatim>\<open>KaldiProcessingError\<close> (with its error logs and whether \<^verbatim>\<open>update_log_file\<close>
  has been applied to it), and any other exception of a collaborator.
\<close>

datatype error =
    NotImplementedError string
  | ValueError string
  | IndexError
  | KeyError string
  | KaldiProcessingError "string list" bool
  | OtherError string

datatype log_level = DEBUG | INFO | WARNING | ERROR

type_synonym log_record = "log_level \<times> string"

subsection \<open>Paths\<close>

text \<open>
  \<^verbatim>\<open>os.path.join(a, b)\<close> on POSIX: an absolute \<^verbatim>\<open>b\<close> replaces \<^verbatim>\<open>a\<close>; otherwise
  the two are joined with one separator, which is left out when \<^verbatim>\<open>a\<close> is empty or ends
  with a separator already.
\<close>

definition path_join :: "string \<Rightarrow> string \<Rightarrow> string" where
  "path_join a b =
     (if b \<noteq> [] \<and> hd b = CHR ''/'' then b
      else if a = [] \<or> last a = CHR ''/'' then a @ b
      else a @ ''/'' @ b)"

subsection \<open>Intervals, tiers and the annotation container\<close>

text \<open>
  \<^verbatim>\<open>CtmInterval\<close> (its declaration is not part of the sources) is used through its
  \<^verbatim>\<open>label\<close> and its \<^verbatim>\<open>to_tg_interval()\<close>; the record follows the spec's Interval,
  a (start time, end time, label) triple. Times are Python floats that the module only
  stores and compares; they are modelled by reals.
\<close>

record ctm_interval =
  ctm_begin :: real
  ctm_end :: real
  ctm_label :: string

record tg_interval =
  tg_start :: real
  tg_end :: real
  tg_label :: string

record interval_tier =
  tier_name :: string
  tier_entries :: "tg_interval list"
  tier_minT :: real
  tier_maxT :: real

record textgrid =
  minTimestamp :: real
  maxTimestamp :: real
  tg_tiers :: "interval_tier list"

text \<open>
  \<^verbatim>\<open>TextFileType\<close>: its declaration is not part of the sources; the spec's Recording
  carries a format tag with two values, single-label and multi-tier.
\<close>

datatype TextFileType = LAB | TEXT_GRID

subsection \<open>The file system\<close>

datatype file_content =
    PlainText string
  | TextGridFile TextFileType textgrid

text \<open>
  The file system as far as the module looks at it: the directories that exist and the
  contents of the regular files. \<^verbatim>\<open>os.path.exists\<close> holds of both kinds;
  \<^verbatim>\<open>os.makedirs(p, exist_ok=True)\<close> leaves \<^verbatim>\<open>p\<close> existing as a directory.
  Failures of the operating system (permissions, a full disk) are outside the model.
\<close>

record filesystem =
  fs_dirs :: "string set"
  fs_contents :: "string \<rightharpoonup> file_content"

definition path_exists :: "filesystem \<Rightarrow> string \<Rightarrow> bool" where
  "path_exists fs p = (p \<in> fs_dirs fs \<or> fs_contents fs p \<noteq> None)"

definition makedirs :: "string \<Rightarrow> filesystem \<Rightarrow> filesystem" where
  "makedirs p fs = fs\<lparr>fs_dirs := insert p (fs_dirs fs)\<rparr>"

text \<open>
  \<^verbatim>\<open>with mfa_open(path, "w") as f: f.write(text)\<close>: opening for writing creates the
  file or truncates it, before the argument of \<^verbatim>\<open>write\<close> is evaluated; \<^verbatim>\<open>write\<close>
  appends to what the handle has written so far.
\<close>

definition open_w :: "string \<Rightarrow> filesystem \<Rightarrow> filesystem" where
  "open_w p fs = fs\<lparr>fs_contents := (fs_contents fs)(p \<mapsto> PlainText [])\<rparr>"

definition f_write :: "string \<Rightarrow> string \<Rightarrow> filesystem \<Rightarrow> filesystem" where
  "f_write p txt fs =
     fs\<lparr>fs_contents := (fs_contents fs)
        (p \<mapsto> PlainText ((case fs_contents fs p of Some (PlainText t) \<Rightarrow> t | _ \<Rightarrow> []) @ txt))\<rparr>"

subsection \<open>The annotation library\<close>

text \<open>
  Modelled from the spec: the annotation library behind \<^verbatim>\<open>textgrid.Textgrid\<close>,
  \<^verbatim>\<open>textgrid.IntervalTier\<close>, \<^verbatim>\<open>addTier\<close> and \<^verbatim>\<open>save\<close> is not part of the sources.
  The spec's multi-tier format is a container with a declared time range to which one
  named tier is added per speaker, in order; on saving with blank spaces included, the
  gaps of every tier (before the first interval, between consecutive intervals, after
  the last) are filled with empty-label intervals over the declared range, and the
  container is written under the format tag given.
\<close>

definition IntervalTier :: "string \<Rightarrow> tg_interval list \<Rightarrow> real \<Rightarrow> real \<Rightarrow> interval_tier" where
  "IntervalTier nm entries minT maxT =
     \<lparr>tier_name = nm, tier_entries = entries, tier_minT = minT, tier_maxT = maxT\<rparr>"

definition addTier :: "textgrid \<Rightarrow> interval_tier \<Rightarrow> textgrid" where
  "addTier tg tier = tg\<lparr>tg_tiers := tg_tiers tg @ [tier]\<rparr>"

definition blank :: "real \<Rightarrow> real \<Rightarrow> tg_interval" where
  "blank a b = \<lparr>tg_start = a, tg_end = b, tg_label = []\<rparr>"

fun fill_blank_spaces :: "real \<Rightarrow> real \<Rightarrow> tg_interval list \<Rightarrow> tg_interval list" where
  "fill_blank_spaces t hi [] = (if t < hi then [blank t hi] else [])"
| "fill_blank_spaces t hi (x # xs) =
     (if t < tg_start x then [blank t (tg_start x)] else [])
       @ x # fill_blank_spaces (tg_end x) hi xs"

definition fill_tier :: "real \<Rightarrow> real \<Rightarrow> interval_tier \<Rightarrow> interval_tier" where
  "fill_tier lo hi tier = tier\<lparr>tier_entries := fill_blank_spaces lo hi (tier_entries tier)\<rparr>"

definition tg_save :: "textgrid \<Rightarrow> string \<Rightarrow> bool \<Rightarrow> TextFileType \<Rightarrow> filesystem \<Rightarrow> filesystem" where
  "tg_save tg p includeBlankSpaces fmt fs =
     fs\<lparr>fs_contents := (fs_contents fs)
        (p \<mapsto> TextGridFile fmt
           (if includeBlankSpaces
            then tg\<lparr>tg_tiers := map (fill_tier (minTimestamp tg) (maxTimestamp tg)) (tg_tiers tg)\<rparr>
            else tg))\<rparr>"

subsection \<open>The corpus rows and the classifier object\<close>

text \<open>
  A row of the \<^verbatim>\<open>File\<close> query with what \<^verbatim>\<open>export_files\<close> reads of it: its name and
  relative path, its utterances (the spec's Utterance), the names of its speakers in
  their order (\<^verbatim>\<open>speaker.speaker.name\<close> for each entry of \<^verbatim>\<open>file.speakers\<close>), the
  duration of its sound file, the type of its text file, and the dictionary that
  \<^verbatim>\<open>file.construct_transcription_tiers()\<close> returns (that method is not part of the
  sources): speaker name to intervals, in the dictionary's iteration order.
\<close>

record utterance =
  utt_id :: string
  utt_begin :: real
  utt_end :: real
  utt_text :: string

record db_file =
  file_name :: string
  file_relative_path :: string
  file_utterances :: "utterance list"
  file_speakers :: "string list"
  sound_duration :: real
  text_file_type :: TextFileType
  transcription_tiers :: "(string \<times> ctm_interval list) list"

record ivector_extractor_model =
  ie_source :: string
  ie_parameters :: "string \<rightharpoonup> string"

text \<open>
  What the classes \<^verbatim>\<open>SpeakerClassifier\<close> inherits from give it (their code is not
  part of the sources): the overwrite flag, the working directory, the attribute
  \<^verbatim>\<open>self.output_directory\<close>, the paths of \<^verbatim>\<open>extract_ivectors_arguments()\<close>, the
  rows of the corpus database and the log.
\<close>

record base_worker =
  overwrite :: bool
  working_directory :: string
  output_directory :: string
  ivectors_paths :: "string list"
  corpus_files :: "db_file list"
  log_records :: "log_record list"

record 'f classifier = base_worker +
  ivector_extractor :: ivector_extractor_model
  classifier_model :: "unit option"
  speaker_labels :: "string \<rightharpoonup> string"
  ivectors :: "string \<rightharpoonup> 'f list"
  expected_num_speakers :: int
  cluster :: bool

type_synonym 'f world = "'f classifier \<times> filesystem"

definition log_msg :: "log_level \<Rightarrow> string \<Rightarrow> 'f classifier \<Rightarrow> 'f classifier" where
  "log_msg lvl msg s = s\<lparr>log_records := log_records s @ [(lvl, msg)]\<rparr>"

section \<open>The methods of the classifier\<close>

subsection \<open>Construction\<close>

text \<open>
  \<^verbatim>\<open>__init__\<close>: \<^verbatim>\<open>IvectorExtractorModel(path)\<close> and the initialiser of the base
  classes are collaborators (parameters here) that may raise; the keyword arguments are
  updated with the model's parameters before they are handed on.
\<close>

definition init ::
  "(string \<Rightarrow> error + ivector_extractor_model) \<Rightarrow> ((string \<rightharpoonup> string) \<Rightarrow> error + base_worker) \<Rightarrow>
   string \<Rightarrow> int \<Rightarrow> bool \<Rightarrow> (string \<rightharpoonup> string) \<Rightarrow> error + 'f classifier" where
  "init IvectorExtractorModel super_init ivector_extractor_path expected cluster_flag kwargs =
     (case IvectorExtractorModel ivector_extractor_path of
        Inl e \<Rightarrow> Inl e
      | Inr model \<Rightarrow>
          (case super_init (kwargs ++ ie_parameters model) of
             Inl e \<Rightarrow> Inl e
           | Inr b \<Rightarrow>
               Inr \<lparr>overwrite = overwrite b,
                    working_directory = working_directory b,
                    output_directory = output_directory b,
                    ivectors_paths = ivectors_paths b,
                    corpus_files = corpus_files b,
                    log_records = log_records b,
                    ivector_extractor = model,
                    classifier_model = None,
                    speaker_labels = Map.empty,
                    ivectors = Map.empty,
                    expected_num_speakers = expected,
                    cluster = cluster_flag\<rparr>))"

subsection \<open>Clustering\<close>

definition diarization_message :: string where
  "diarization_message =
     ''Speaker diarization functionality is currently under construction and not working in the current version.''"

definition cluster_utterances :: "'f classifier \<Rightarrow> (error + unit) \<times> 'f classifier" where
  "cluster_utterances s =
     (let s1 = log_msg ERROR diarization_message s
      in (Inl (NotImplementedError diarization_message), s1))"

subsection \<open>Setting up\<close>

text \<open>
  The collaborators of \<^verbatim>\<open>setup\<close>, none of them part of the sources:
  \<^verbatim>\<open>check_previous_run\<close>, \<^verbatim>\<open>load_corpus\<close>, the model's \<^verbatim>\<open>export_model\<close>,
  \<^verbatim>\<open>extract_ivectors\<close>, and the records that \<^verbatim>\<open>log_kaldi_errors\<close> logs for the
  error logs it is given. Each of the first four is an action on the classifier and the
  file system that may raise.
\<close>

record 'f collaborators =
  check_previous_run :: "'f world \<Rightarrow> (error + bool) \<times> 'f world"
  load_corpus :: "'f world \<Rightarrow> (error + unit) \<times> 'f world"
  export_model :: "ivector_extractor_model \<Rightarrow> string \<Rightarrow> 'f world \<Rightarrow> (error + unit) \<times> 'f world"
  extract_ivectors :: "'f world \<Rightarrow> (error + unit) \<times> 'f world"
  log_kaldi_errors :: "string list \<Rightarrow> log_record list"

text \<open>The body of the \<^verbatim>\<open>try\<close>: three calls in sequence, stopping at the first exception.\<close>

definition setup_steps :: "'f collaborators \<Rightarrow> 'f world \<Rightarrow> (error + unit) \<times> 'f world" where
  "setup_steps col w =
     (case load_corpus col w of
        (Inl e, w1) \<Rightarrow> (Inl e, w1)
      | (Inr _, w1) \<Rightarrow>
          (case export_model col (ivector_extractor (fst w1)) (working_directory (fst w1)) w1 of
             (Inl e, w2) \<Rightarrow> (Inl e, w2)
           | (Inr _, w2) \<Rightarrow> extract_ivectors col w2))"

text \<open>
  The \<^verbatim>\<open>except\<close> clause of \<^verbatim>\<open>setup\<close> (\<open>setup_classifier\<close> below; the
  source's name is a keyword of Isabelle): a \<^verbatim>\<open>KaldiProcessingError\<close> has its error logs logged and
  its log file updated; every exception is raised again.
\<close>

definition setup_handler ::
  "'f collaborators \<Rightarrow> error \<Rightarrow> 'f world \<Rightarrow> (error + unit) \<times> 'f world" where
  "setup_handler col e w =
     (case e of
        KaldiProcessingError error_logs updated \<Rightarrow>
          (Inl (KaldiProcessingError error_logs True),
           ((fst w)\<lparr>log_records := log_records (fst w) @ log_kaldi_errors col error_logs\<rparr>, snd w))
      | _ \<Rightarrow> (Inl e, w))"

definition setup_classifier :: "'f collaborators \<Rightarrow> 'f world \<Rightarrow> (error + unit) \<times> 'f world" where
  "setup_classifier col w =
     (case check_previous_run col w of
        (Inl e, w1) \<Rightarrow> (Inl e, w1)
      | (Inr _, (s1, fs1)) \<Rightarrow>
          (let done_path = path_join (working_directory s1) ''done''
           in if path_exists fs1 done_path
              then (Inr (), (log_msg INFO ''Classification already done, skipping initialization.'' s1, fs1))
              else
                (let log_dir = path_join (working_directory s1) ''log'';
                     fs2 = makedirs log_dir fs1
                 in case setup_steps col (s1, fs2) of
                      (Inl e, w3) \<Rightarrow> setup_handler col e w3
                    | (Inr _, w3) \<Rightarrow> (Inr (), w3))))"

subsection \<open>Loading the ivectors\<close>

text \<open>
  \<^verbatim>\<open>float\<close> is a parameter (\<^verbatim>\<open>None\<close> where Python raises \<^verbatim>\<open>ValueError\<close>), and so
  is \<^verbatim>\<open>load_scp\<close>, which is not part of the sources: for a path it raises or returns
  a dictionary from utterance identifiers to their components, here the list of its
  items in iteration order.
\<close>

fun float_all :: "(string \<Rightarrow> 'f option) \<Rightarrow> string list \<Rightarrow> error + 'f list" where
  "float_all py_float [] = Inr []"
| "float_all py_float (x # xs) =
     (case py_float x of
        None \<Rightarrow> Inl (ValueError x)
      | Some v \<Rightarrow> (case float_all py_float xs of Inl e \<Rightarrow> Inl e | Inr vs \<Rightarrow> Inr (v # vs)))"

fun store_ivectors ::
  "(string \<Rightarrow> 'f option) \<Rightarrow> (string \<times> string list) list \<Rightarrow> (string \<rightharpoonup> 'f list) \<Rightarrow>
   (error + unit) \<times> (string \<rightharpoonup> 'f list)" where
  "store_ivectors py_float [] m = (Inr (), m)"
| "store_ivectors py_float ((utt, ivector) # rest) m =
     (case float_all py_float ivector of
        Inl e \<Rightarrow> (Inl e, m)
      | Inr v \<Rightarrow> store_ivectors py_float rest (m(utt \<mapsto> v)))"

fun load_shards ::
  "(string \<Rightarrow> 'f option) \<Rightarrow> (string \<Rightarrow> error + (string \<times> string list) list) \<Rightarrow> string list \<Rightarrow>
   (string \<rightharpoonup> 'f list) \<Rightarrow> (error + unit) \<times> (string \<rightharpoonup> 'f list)" where
  "load_shards py_float load_scp [] m = (Inr (), m)"
| "load_shards py_float load_scp (p # ps) m =
     (case load_scp p of
        Inl e \<Rightarrow> (Inl e, m)
      | Inr ivec \<Rightarrow>
          (case store_ivectors py_float ivec m of
             (Inl e, m1) \<Rightarrow> (Inl e, m1)
           | (Inr _, m1) \<Rightarrow> load_shards py_float load_scp ps m1))"

definition load_ivectors ::
  "(string \<Rightarrow> 'f option) \<Rightarrow> (string \<Rightarrow> error + (string \<times> string list) list) \<Rightarrow>
   'f classifier \<Rightarrow> (error + unit) \<times> 'f classifier" where
  "load_ivectors py_float load_scp s =
     (case load_shards py_float load_scp (ivectors_paths s) Map.empty of
        (r, m) \<Rightarrow> (r, s\<lparr>ivectors := m\<rparr>))"

subsection \<open>Exporting\<close>

text \<open>
  The single-label branch: for each value of the dictionary the output file is opened for
  writing and the label of the first interval is written to it; \<^verbatim>\<open>intervals[0]\<close>
  raises \<^verbatim>\<open>IndexError\<close> on an empty list, after the file has been opened.
\<close>

fun write_labels ::
  "string \<Rightarrow> ctm_interval list list \<Rightarrow> filesystem \<Rightarrow> (error + unit) \<times> filesystem" where
  "write_labels output_path [] fs = (Inr (), fs)"
| "write_labels output_path (intervals # rest) fs =
     (let fs1 = open_w output_path fs
      in case intervals of
           [] \<Rightarrow> (Inl IndexError, fs1)
         | i # _ \<Rightarrow> write_labels output_path rest (f_write output_path (ctm_label i) fs1))"

text \<open>
  The multi-tier branch: one tier per speaker of the file, in order; \<^verbatim>\<open>data[speaker]\<close>
  raises \<^verbatim>\<open>KeyError\<close> for a speaker the dictionary does not have. The conversion
  \<^verbatim>\<open>to_tg_interval\<close> is not part of the sources and is a parameter.
\<close>

fun add_speaker_tiers ::
  "(ctm_interval \<Rightarrow> tg_interval) \<Rightarrow> (string \<times> ctm_interval list) list \<Rightarrow> real \<Rightarrow>
   string list \<Rightarrow> textgrid \<Rightarrow> error + textgrid" where
  "add_speaker_tiers to_tg_interval data duration [] tg = Inr tg"
| "add_speaker_tiers to_tg_interval data duration (speaker # rest) tg =
     (case map_of data speaker of
        None \<Rightarrow> Inl (KeyError speaker)
      | Some intervals \<Rightarrow>
          add_speaker_tiers to_tg_interval data duration rest
            (addTier tg (IntervalTier speaker (map to_tg_interval intervals) 0 duration)))"

text \<open>
  The body of the loop over the files. \<^verbatim>\<open>construct_output_path\<close> is not part of the
  sources and is a parameter; it is given \<^verbatim>\<open>self.output_directory\<close>.
\<close>

definition export_file ::
  "(string \<Rightarrow> string \<Rightarrow> string \<Rightarrow> TextFileType \<Rightarrow> string) \<Rightarrow> (ctm_interval \<Rightarrow> tg_interval) \<Rightarrow>
   db_file \<Rightarrow> 'f world \<Rightarrow> (error + unit) \<times> 'f world" where
  "export_file construct_output_path to_tg_interval file w =
     (let s = fst w; fs = snd w;
          utterance_count = length (file_utterances file);
          duration = sound_duration file;
          s1 = (if utterance_count = 0
                then log_msg DEBUG (''Could not find any utterances for '' @ file_name file) s
                else s);
          output_path = construct_output_path (file_name file) (file_relative_path file)
                          (output_directory s1) (text_file_type file);
          data = transcription_tiers file
      in if text_file_type file = LAB
         then (case write_labels output_path (map snd data) fs of (r, fs1) \<Rightarrow> (r, (s1, fs1)))
         else
           (case add_speaker_tiers to_tg_interval data duration (file_speakers file)
                   \<lparr>minTimestamp = 0, maxTimestamp = duration, tg_tiers = []\<rparr> of
              Inl e \<Rightarrow> (Inl e, (s1, fs))
            | Inr tg \<Rightarrow> (Inr (), (s1, tg_save tg output_path True (text_file_type file) fs))))"

fun export_loop ::
  "(string \<Rightarrow> string \<Rightarrow> string \<Rightarrow> TextFileType \<Rightarrow> string) \<Rightarrow> (ctm_interval \<Rightarrow> tg_interval) \<Rightarrow>
   db_file list \<Rightarrow> 'f world \<Rightarrow> (error + unit) \<times> 'f world" where
  "export_loop construct_output_path to_tg_interval [] w = (Inr (), w)"
| "export_loop construct_output_path to_tg_interval (file # files) w =
     (case export_file construct_output_path to_tg_interval file w of
        (Inl e, w1) \<Rightarrow> (Inl e, w1)
      | (Inr _, w1) \<Rightarrow> export_loop construct_output_path to_tg_interval files w1)"

text \<open>
  \<^verbatim>\<open>export_files\<close> (\<open>export_files_to\<close> here; the source's name is a keyword of Isabelle).
\<close>

definition export_files_to ::
  "(string \<Rightarrow> string \<Rightarrow> string \<Rightarrow> TextFileType \<Rightarrow> string) \<Rightarrow> (ctm_interval \<Rightarrow> tg_interval) \<Rightarrow>
   string \<Rightarrow> 'f world \<Rightarrow> (error + unit) \<times> 'f world" where
  "export_files_to construct_output_path to_tg_interval output_directory_arg w =
     (let s = fst w; fs = snd w;
          output_directory1 =
            (if \<not> overwrite s \<and> path_exists fs output_directory_arg
             then path_join (working_directory s) ''transcriptions''
             else output_directory_arg);
          fs1 = makedirs output_directory1 fs
      in export_loop construct_output_path to_tg_interval (corpus_files s) (s, fs1))"

section \<open>Notions the properties are stated with\<close>

text \<open>
  The items of all the shards, in the order \<^verbatim>\<open>load_ivectors\<close> reads them, the
  components among them, and the items with their components converted.
\<close>

definition shard_items ::
  "(string \<Rightarrow> error + (string \<times> string list) list) \<Rightarrow> string list \<Rightarrow> (string \<times> string list) list" where
  "shard_items load_scp paths =
     concat (map (\<lambda>p. case load_scp p of Inl e \<Rightarrow> [] | Inr ivec \<Rightarrow> ivec) paths)"

definition components :: "(string \<times> string list) list \<Rightarrow> string list" where
  "components items = concat (map snd items)"

definition parsed_items ::
  "(string \<Rightarrow> 'f option) \<Rightarrow> (string \<times> string list) list \<Rightarrow> (string \<times> 'f list) list" where
  "parsed_items py_float items = map (\<lambda>(utt, ivector). (utt, map (the \<circ> py_float) ivector)) items"

text \<open>
  A tier's intervals are in order within \<open>[t, hi]\<close> when each starts no earlier than
  the one before it ends (and than \<open>t\<close>), none ends before it starts, and the last ends
  by \<open>hi\<close>: the spec's invariants of Interval and Tier. A list of intervals covers
  \<open>[t, hi]\<close> without gaps when the first starts at \<open>t\<close>, each next one starts where the
  one before it ends, and the last ends at \<open>hi\<close>.
\<close>

fun ordered_within :: "real \<Rightarrow> real \<Rightarrow> tg_interval list \<Rightarrow> bool" where
  "ordered_within t hi [] = (t \<le> hi)"
| "ordered_within t hi (x # xs) =
     (t \<le> tg_start x \<and> tg_start x \<le> tg_end x \<and> ordered_within (tg_end x) hi xs)"

fun covers :: "real \<Rightarrow> real \<Rightarrow> tg_interval list \<Rightarrow> bool" where
  "covers t hi [] = (t = hi)"
| "covers t hi (x # xs) = (tg_start x = t \<and> tg_start x \<le> tg_end x \<and> covers (tg_end x) hi xs)"

section \<open>Sample collaborators and inputs\<close>

text \<open>
  Instances of the parameters, for evaluating the methods on concrete inputs. The sample
  \<^verbatim>\<open>float\<close> agrees with Python's on the strings listed and on \<^verbatim>\<open>abc\<close>, which is not
  a number; the sample \<^verbatim>\<open>load_scp\<close> knows two shards; the sample
  \<^verbatim>\<open>construct_output_path\<close> joins the directory, the relative path and the name with
  the extension of the format; the sample \<^verbatim>\<open>to_tg_interval\<close> keeps the triple.
\<close>

definition sample_float :: "string \<Rightarrow> real option" where
  "sample_float = map_of [(''0.5'', 1 / 2), (''1.0'', 1), (''2.0'', 2), (''-3.25'', - 13 / 4)]"

definition sample_load_scp :: "string \<Rightarrow> error + (string \<times> string list) list" where
  "sample_load_scp p =
     (if p = ''ivectors.1.scp'' then Inr [(''utt1'', [''1.0'', ''2.0'']), (''utt2'', [''0.5''])]
      else if p = ''ivectors.2.scp'' then Inr [(''utt3'', [''-3.25'', ''2.0'']), (''utt1'', [''0.5'', ''1.0''])]
      else if p = ''ivectors.bad.scp'' then Inr [(''utt4'', [''1.0'', ''abc''])]
      else Inl (OtherError ''FileNotFoundError''))"

definition sample_construct_output_path :: "string \<Rightarrow> string \<Rightarrow> string \<Rightarrow> TextFileType \<Rightarrow> string" where
  "sample_construct_output_path nm relative_path dir fmt =
     path_join (if relative_path = [] then dir else path_join dir relative_path)
       (nm @ (case fmt of LAB \<Rightarrow> ''.lab'' | TEXT_GRID \<Rightarrow> ''.TextGrid''))"

definition sample_to_tg_interval :: "ctm_interval \<Rightarrow> tg_interval" where
  "sample_to_tg_interval i = \<lparr>tg_start = ctm_begin i, tg_end = ctm_end i, tg_label = ctm_label i\<rparr>"

definition sample_IvectorExtractorModel :: "string \<Rightarrow> error + ivector_extractor_model" where
  "sample_IvectorExtractorModel p =
     (if p = ''ivector.zip''
      then Inr \<lparr>ie_source = p, ie_parameters = [''feature_type'' \<mapsto> ''mfcc'']\<rparr>
      else Inl (OtherError ''ModelLoadError''))"

definition sample_worker :: "db_file list \<Rightarrow> base_worker" where
  "sample_worker files =
     \<lparr>overwrite = False,
      working_directory = ''/tmp/mfa/corpus/speaker_classification'',
      output_directory = ''/tmp/mfa/corpus'',
      ivectors_paths = [''ivectors.1.scp'', ''ivectors.2.scp''],
      corpus_files = files,
      log_records = []\<rparr>"

definition sample_super_init :: "(string \<rightharpoonup> string) \<Rightarrow> error + base_worker" where
  "sample_super_init kwargs = Inr (sample_worker [])"

definition sample_classifier :: "db_file list \<Rightarrow> real classifier" where
  "sample_classifier files =
     \<lparr>overwrite = False,
      working_directory = ''/tmp/mfa/corpus/speaker_classification'',
      output_directory = ''/tmp/mfa/corpus'',
      ivectors_paths = [''ivectors.1.scp'', ''ivectors.2.scp''],
      corpus_files = files,
      log_records = [],
      ivector_extractor = \<lparr>ie_source = ''ivector.zip'', ie_parameters = Map.empty\<rparr>,
      classifier_model = None,
      speaker_labels = Map.empty,
      ivectors = Map.empty,
      expected_num_speakers = 0,
      cluster = True\<rparr>"

text \<open>
  A recording of nine seconds with three utterances, two of speaker A and one of speaker
  B (the scenario of the spec), in the multi-tier format; a single-label recording with
  one tier of two intervals; one whose only tier has no interval; and one with two tiers.
\<close>

definition sample_recording :: db_file where
  "sample_recording =
     \<lparr>file_name = ''rec1'', file_relative_path = [],
      file_utterances =
        [\<lparr>utt_id = ''u1'', utt_begin = 0, utt_end = 2, utt_text = ''text1''\<rparr>,
         \<lparr>utt_id = ''u2'', utt_begin = 2, utt_end = 5, utt_text = ''text2''\<rparr>,
         \<lparr>utt_id = ''u3'', utt_begin = 6, utt_end = 9, utt_text = ''text3''\<rparr>],
      file_speakers = [''A'', ''B''],
      sound_duration = 9,
      text_file_type = TEXT_GRID,
      transcription_tiers =
        [(''A'', [\<lparr>ctm_begin = 0, ctm_end = 2, ctm_label = ''text1''\<rparr>,
                  \<lparr>ctm_begin = 2, ctm_end = 5, ctm_label = ''text2''\<rparr>]),
         (''B'', [\<lparr>ctm_begin = 6, ctm_end = 9, ctm_label = ''text3''\<rparr>])]\<rparr>"

definition sample_lab :: db_file where
  "sample_lab =
     \<lparr>file_name = ''rec2'', file_relative_path = ''sub'',
      file_utterances =
        [\<lparr>utt_id = ''u4'', utt_begin = 0, utt_end = 1, utt_text = ''one''\<rparr>,
         \<lparr>utt_id = ''u5'', utt_begin = 1, utt_end = 3, utt_text = ''two''\<rparr>],
      file_speakers = [''A''],
      sound_duration = 3,
      text_file_type = LAB,
      transcription_tiers =
        [(''A'', [\<lparr>ctm_begin = 0, ctm_end = 1, ctm_label = ''one''\<rparr>,
                  \<lparr>ctm_begin = 1, ctm_end = 3, ctm_label = ''two''\<rparr>])]\<rparr>"

definition sample_lab_empty_tier :: db_file where
  "sample_lab_empty_tier =
     \<lparr>file_name = ''rec3'', file_relative_path = [],
      file_utterances = [],
      file_speakers = [''A''],
      sound_duration = 3,
      text_file_type = LAB,
      transcription_tiers = [(''A'', [])]\<rparr>"

definition sample_lab_two_tiers :: db_file where
  "sample_lab_two_tiers =
     \<lparr>file_name = ''rec4'', file_relative_path = [],
      file_utterances =
        [\<lparr>utt_id = ''u6'', utt_begin = 0, utt_end = 1, utt_text = ''first''\<rparr>,
         \<lparr>utt_id = ''u7'', utt_begin = 1, utt_end = 2, utt_text = ''second''\<rparr>,
         \<lparr>utt_id = ''u8'', utt_begin = 2, utt_end = 3, utt_text = ''third''\<rparr>],
      file_speakers = [''A'', ''B''],
      sound_duration = 3,
      text_file_type = LAB,
      transcription_tiers =
        [(''A'', [\<lparr>ctm_begin = 0, ctm_end = 1, ctm_label = ''first''\<rparr>,
                  \<lparr>ctm_begin = 2, ctm_end = 3, ctm_label = ''third''\<rparr>]),
         (''B'', [\<lparr>ctm_begin = 1, ctm_end = 2, ctm_label = ''second''\<rparr>])]\<rparr>"

definition sample_fs :: filesystem where
  "sample_fs = \<lparr>fs_dirs = {''/data/out''}, fs_contents = Map.empty\<rparr>"

text \<open>
  Collaborators of \<^verbatim>\<open>setup\<close>: the check of the previous run logs a warning, and each
  of the three steps would fail if it were called.
\<close>

definition sample_collaborators :: "real collaborators" where
  "sample_collaborators =
     \<lparr>check_previous_run =
        (\<lambda>w. (Inr False, ((fst w)\<lparr>log_records := log_records (fst w) @ [(WARNING, ''previous run'')]\<rparr>, snd w))),
      load_corpus = (\<lambda>w. (Inl (OtherError ''load_corpus''), w)),
      export_model = (\<lambda>m d w. (Inl (OtherError ''export_model''), w)),
      extract_ivectors = (\<lambda>w. (Inl (KaldiProcessingError [''extract_ivectors''] False), w)),
      log_kaldi_errors = (\<lambda>logs. map (\<lambda>l. (ERROR, l)) logs)\<rparr>"

definition sample_fs_done :: filesystem where
  "sample_fs_done =
     \<lparr>fs_dirs = {''/tmp/mfa/corpus/speaker_classification''},
      fs_contents = [''/tmp/mfa/corpus/speaker_classification/done'' \<mapsto> PlainText []]\<rparr>"

section \<open>Properties\<close>

text \<open>
  C1. Every call of \<^verbatim>\<open>cluster_utterances\<close> raises \<^verbatim>\<open>NotImplementedError\<close> with the
  message that speaker diarization is under construction and not working in the current
  version, whatever the stored ivectors, the cluster flag and the expected number of
  speakers are; the speaker labels, the ivectors and every other attribute are as they
  were, and only the error message has been logged.
\<close>

theorem cluster_utterances_not_implemented:
  "fst (cluster_utterances s) =
     Inl (NotImplementedError
       ''Speaker diarization functionality is currently under construction and not working in the current version.'')
   \<and> speaker_labels (snd (cluster_utterances s)) = speaker_labels s
   \<and> snd (cluster_utterances s) = s\<lparr>log_records := log_records s @ [(ERROR, diarization_message)]\<rparr>"
  by (simp add: cluster_utterances_def diarization_message_def log_msg_def)

subsection \<open>Exporting: what a run writes\<close>

lemma lab_write_once:
  "f_write p txt (open_w p fs) = fs\<lparr>fs_contents := (fs_contents fs)(p \<mapsto> PlainText txt)\<rparr>"
  by (simp add: f_write_def open_w_def)

lemma write_labels_last:
  "tiers \<noteq> [] \<Longrightarrow> \<forall>ivs \<in> set tiers. ivs \<noteq> [] \<Longrightarrow>
   write_labels p tiers fs =
     (Inr (), fs\<lparr>fs_contents := (fs_contents fs)(p \<mapsto> PlainText (ctm_label (hd (last tiers))))\<rparr>)"
proof (induction tiers arbitrary: fs)
  case Nil
  then show ?case by simp
next
  case (Cons ivs rest)
  from Cons.prems obtain i more where ivs: "ivs = i # more"
    by (cases ivs) auto
  show ?case
  proof (cases "rest = []")
    case True
    then show ?thesis by (simp add: ivs lab_write_once del: fun_upd_apply)
  next
    case False
    with Cons.prems have "\<forall>ivs \<in> set rest. ivs \<noteq> []" by simp
    from Cons.IH [OF False this]
    show ?thesis using False by (simp add: ivs lab_write_once del: fun_upd_apply)
  qed
qed

lemma map_add_twice: "m ++ W ++ W = m ++ W"
  by (rule ext) (simp add: map_add_def split: option.split)

lemma write_labels_frame:
  "\<exists>r W. \<forall>fs. write_labels p tiers fs = (r, fs\<lparr>fs_contents := fs_contents fs ++ W\<rparr>)"
proof (induction tiers)
  case Nil
  have "\<forall>fs. write_labels p [] fs = (Inr (), fs\<lparr>fs_contents := fs_contents fs ++ Map.empty\<rparr>)"
    by simp
  then show ?case by blast
next
  case (Cons ivs rest)
  then obtain r W where IH: "\<And>fs. write_labels p rest fs = (r, fs\<lparr>fs_contents := fs_contents fs ++ W\<rparr>)"
    by blast
  show ?case
  proof (cases ivs)
    case Nil
    have "\<forall>fs. write_labels p (ivs # rest) fs =
            (Inl IndexError, fs\<lparr>fs_contents := fs_contents fs ++ [p \<mapsto> PlainText []]\<rparr>)"
      by (simp add: Nil open_w_def)
    then show ?thesis by blast
  next
    case (Cons i more)
    have "\<forall>fs. write_labels p (ivs # rest) fs =
            (r, fs\<lparr>fs_contents := fs_contents fs ++ ([p \<mapsto> PlainText (ctm_label i)] ++ W)\<rparr>)"
      by (simp add: Cons lab_write_once IH)
    then show ?thesis by blast
  qed
qed

lemma export_file_frame:
  "\<exists>r L W. \<forall>(s::'f classifier) fs. output_directory s = od \<longrightarrow>
     export_file cop tt f (s, fs) =
       (r, (s\<lparr>log_records := log_records s @ L\<rparr>, fs\<lparr>fs_contents := fs_contents fs ++ W\<rparr>))"
proof -
  let ?p = "cop (file_name f) (file_relative_path f) od (text_file_type f)"
  let ?L = "if length (file_utterances f) = 0
            then [(DEBUG, ''Could not find any utterances for '' @ file_name f)] else []"
  show ?thesis
  proof (cases "text_file_type f = LAB")
    case True
    obtain r W where w: "\<And>fs. write_labels (cop (file_name f) (file_relative_path f) od LAB)
          (map snd (transcription_tiers f)) fs
        = (r, fs\<lparr>fs_contents := fs_contents fs ++ W\<rparr>)"
      using write_labels_frame by blast
    have "\<forall>(s::'f classifier) fs. output_directory s = od \<longrightarrow>
       export_file cop tt f (s, fs) =
       (r, (s\<lparr>log_records := log_records s @ ?L\<rparr>, fs\<lparr>fs_contents := fs_contents fs ++ W\<rparr>))"
      using True by (simp add: export_file_def Let_def log_msg_def w)
    then show ?thesis by blast
  next
    case False
    show ?thesis
    proof (cases "add_speaker_tiers tt (transcription_tiers f) (sound_duration f) (file_speakers f)
                   \<lparr>minTimestamp = 0, maxTimestamp = sound_duration f, tg_tiers = []\<rparr>")
      case (Inl e)
      have "\<forall>(s::'f classifier) fs. output_directory s = od \<longrightarrow>
         export_file cop tt f (s, fs) =
         (Inl e, (s\<lparr>log_records := log_records s @ ?L\<rparr>, fs\<lparr>fs_contents := fs_contents fs ++ Map.empty\<rparr>))"
        using False Inl by (simp add: export_file_def Let_def log_msg_def)
      then show ?thesis by blast
    next
      case (Inr tg)
      have "\<forall>(s::'f classifier) fs. output_directory s = od \<longrightarrow>
         export_file cop tt f (s, fs) =
         (Inr (), (s\<lparr>log_records := log_records s @ ?L\<rparr>,
            fs\<lparr>fs_contents := fs_contents fs ++
              [?p \<mapsto> TextGridFile (text_file_type f)
                 (tg\<lparr>tg_tiers := map (fill_tier (minTimestamp tg) (maxTimestamp tg)) (tg_tiers tg)\<rparr>)]\<rparr>))"
        using False Inr by (simp add: export_file_def Let_def log_msg_def tg_save_def)
      then show ?thesis by blast
    qed
  qed
qed

lemma export_loop_frame:
  "\<exists>r L W. \<forall>(s::'f classifier) fs. output_directory s = od \<longrightarrow>
     export_loop cop tt files (s, fs) =
       (r, (s\<lparr>log_records := log_records s @ L\<rparr>, fs\<lparr>fs_contents := fs_contents fs ++ W\<rparr>))"
proof (induction files)
  case Nil
  have "\<forall>(s::'f classifier) fs. output_directory s = od \<longrightarrow>
     export_loop cop tt [] (s, fs) =
       (Inr (), (s\<lparr>log_records := log_records s @ []\<rparr>, fs\<lparr>fs_contents := fs_contents fs ++ Map.empty\<rparr>))"
    by simp
  then show ?case by blast
next
  case (Cons f files)
  obtain r1 L1 W1 where one: "\<And>(s::'f classifier) fs. output_directory s = od \<Longrightarrow>
     export_file cop tt f (s, fs) =
       (r1, (s\<lparr>log_records := log_records s @ L1\<rparr>, fs\<lparr>fs_contents := fs_contents fs ++ W1\<rparr>))"
    using export_file_frame [of od cop tt f] by blast
  from Cons obtain r2 L2 W2 where rest: "\<And>(s::'f classifier) fs. output_directory s = od \<Longrightarrow>
     export_loop cop tt files (s, fs) =
       (r2, (s\<lparr>log_records := log_records s @ L2\<rparr>, fs\<lparr>fs_contents := fs_contents fs ++ W2\<rparr>))"
    by blast
  show ?case
  proof (cases r1)
    case (Inl e)
    have "\<forall>(s::'f classifier) fs. output_directory s = od \<longrightarrow>
     export_loop cop tt (f # files) (s, fs) =
       (Inl e, (s\<lparr>log_records := log_records s @ L1\<rparr>, fs\<lparr>fs_contents := fs_contents fs ++ W1\<rparr>))"
      by (simp add: one Inl)
    then show ?thesis by blast
  next
    case (Inr u)
    have "\<forall>(s::'f classifier) fs. output_directory s = od \<longrightarrow>
     export_loop cop tt (f # files) (s, fs) =
       (r2, (s\<lparr>log_records := log_records s @ (L1 @ L2)\<rparr>, fs\<lparr>fs_contents := fs_contents fs ++ (W1 ++ W2)\<rparr>))"
      by (simp add: one Inr rest)
    then show ?thesis by blast
  qed
qed

text \<open>
  C7. Export is idempotent: a second run of \<^verbatim>\<open>export_files\<close> on the world the first run
  left (same rows, same tiers, same configuration) has the same outcome as the first and
  leaves every file with the contents the first run gave it: it writes the same files at
  the same paths, each write replacing the file. (The writes are assignments that do not
  read the file system; the textgrid writer is the annotation library of the model.)
\<close>

theorem export_files_idempotent:
  "fst (export_files_to cop tt d (snd (export_files_to cop tt d (w::'f world)))) = fst (export_files_to cop tt d w)
   \<and> fs_contents (snd (snd (export_files_to cop tt d (snd (export_files_to cop tt d w)))))
       = fs_contents (snd (snd (export_files_to cop tt d w)))"
proof -
  obtain s :: "'f classifier" and fs where w: "w = (s, fs)" by (cases w)
  obtain r L W where loop: "\<And>(s'::'f classifier) fs'. output_directory s' = output_directory s \<Longrightarrow>
     export_loop cop tt (corpus_files s) (s', fs') =
       (r, (s'\<lparr>log_records := log_records s' @ L\<rparr>, fs'\<lparr>fs_contents := fs_contents fs' ++ W\<rparr>))"
    using export_loop_frame [of "output_directory s" cop tt "corpus_files s"] by blast
  show ?thesis
    by (simp add: w export_files_to_def Let_def loop makedirs_def map_add_twice)
qed


text \<open>
  C10. In the single-label branch the output file is opened and rewritten once per tier
  of the file's transcription data, each time with the label of that tier's first
  interval only. So when there is at least one tier and no tier is empty, the export of
  the file succeeds, changes nothing but that one file, and leaves in it the label of the
  first interval of the last tier iterated: the other tiers, and every interval after
  the first of a tier, leave no trace.
\<close>

theorem export_file_single_label_last_tier:
  assumes "text_file_type f = LAB"
    and "transcription_tiers f \<noteq> []"
    and "\<forall>tier \<in> set (transcription_tiers f). snd tier \<noteq> []"
  shows "fst (export_file cop tt f (s, fs)) = Inr ()
     \<and> snd (snd (export_file cop tt f (s, fs))) =
         fs\<lparr>fs_contents := (fs_contents fs)
            (cop (file_name f) (file_relative_path f) (output_directory s) LAB
               \<mapsto> PlainText (ctm_label (hd (snd (last (transcription_tiers f))))))\<rparr>"
proof -
  let ?tiers = "map snd (transcription_tiers f)"
  have ne: "?tiers \<noteq> []" using assms(2) by simp
  have all: "\<forall>ivs \<in> set ?tiers. ivs \<noteq> []" using assms(3) by auto
  have l: "last ?tiers = snd (last (transcription_tiers f))"
    using assms(2) by (simp add: last_map)
  show ?thesis
    using write_labels_last [OF ne all] assms(1)
    by (simp add: export_file_def Let_def log_msg_def l del: fun_upd_apply)
qed

text \<open>
  The property at a single-label file with two tiers, A with the labels \<^verbatim>\<open>first\<close> and
  \<^verbatim>\<open>third\<close> and then B with \<^verbatim>\<open>second\<close>: the file holds \<^verbatim>\<open>second\<close>.
\<close>

theorem export_file_single_label_last_tier_witness:
  "fst (export_file sample_construct_output_path sample_to_tg_interval sample_lab_two_tiers
          (sample_classifier [sample_lab_two_tiers], sample_fs)) = Inr ()
   \<and> fs_contents (snd (snd (export_file sample_construct_output_path sample_to_tg_interval
          sample_lab_two_tiers (sample_classifier [sample_lab_two_tiers], sample_fs))))
        ''/tmp/mfa/corpus/rec4.lab'' = Some (PlainText ''second'')"
  using export_file_single_label_last_tier [of sample_lab_two_tiers sample_construct_output_path
      sample_to_tg_interval "sample_classifier [sample_lab_two_tiers]" sample_fs]
  by (simp add: sample_lab_two_tiers_def sample_classifier_def sample_fs_def
      sample_construct_output_path_def path_join_def)

text \<open>
  C2. With the overwrite flag off and the output directory given (\<^verbatim>\<open>/data/out\<close>) existing,
  the run raises no error and creates the directory \<^verbatim>\<open>transcriptions\<close> beneath the working
  directory, but the one file it writes is not beneath that directory: its path is built
  from \<^verbatim>\<open>self.output_directory\<close>, not from the redirected local directory.
\<close>

theorem export_files_ignores_redirect:
  "fst (export_files_to sample_construct_output_path sample_to_tg_interval ''/data/out''
          (sample_classifier [sample_recording], sample_fs)) = Inr ()
   \<and> fs_dirs (snd (snd (export_files_to sample_construct_output_path sample_to_tg_interval ''/data/out''
          (sample_classifier [sample_recording], sample_fs))))
       = {''/tmp/mfa/corpus/speaker_classification/transcriptions'', ''/data/out''}
   \<and> dom (fs_contents (snd (snd (export_files_to sample_construct_output_path sample_to_tg_interval
          ''/data/out'' (sample_classifier [sample_recording], sample_fs)))))
       = {''/tmp/mfa/corpus/rec1.TextGrid''}"
  by (simp add: export_files_to_def export_file_def Let_def sample_classifier_def sample_fs_def
      sample_recording_def sample_construct_output_path_def path_join_def path_exists_def
      makedirs_def tg_save_def addTier_def IntervalTier_def)

text \<open>
  C3. A single-label file whose only tier has no interval: the output file is opened
  (and so exists, empty), then \<^verbatim>\<open>intervals[0]\<close> raises \<^verbatim>\<open>IndexError\<close> and the run
  ends with that error.
\<close>

theorem export_files_empty_tier_index_error:
  "export_files_to sample_construct_output_path sample_to_tg_interval ''/data/new''
          (sample_classifier [sample_lab_empty_tier], sample_fs)
    = (Inl IndexError,
       (sample_classifier [sample_lab_empty_tier])
          \<lparr>log_records := [(DEBUG, ''Could not find any utterances for rec3'')]\<rparr>,
       \<lparr>fs_dirs = {''/data/new'', ''/data/out''},
        fs_contents = [''/tmp/mfa/corpus/rec3.lab'' \<mapsto> PlainText []]\<rparr>)"
  by (simp add: export_files_to_def export_file_def Let_def sample_classifier_def sample_fs_def
      sample_lab_empty_tier_def sample_construct_output_path_def path_join_def path_exists_def
      makedirs_def open_w_def log_msg_def)

end
